theory Spec2Isabelle
  imports Main
begin

section \<open>Values, requests and responses\<close>

text \<open>
  The views of \<^verbatim>\<open>users/views.py\<close> read two fields of a response body and hand them to
  \<^verbatim>\<open>set_cookie\<close>. A Python value is one of the JSON scalars; \<open>PNone\<close> is Python's
  \<^verbatim>\<open>None\<close>. A dict is a map from keys to values.
\<close>

datatype pyval = PNone | PStr string | PInt int | PBool bool

type_synonym pydict = "string \<rightharpoonup> pyval"

text \<open>\<^verbatim>\<open>d.get(k)\<close>: the value stored under \<open>k\<close>, and \<^verbatim>\<open>None\<close> when the key is absent.\<close>

definition dict_get :: "pydict \<Rightarrow> string \<Rightarrow> pyval" where
  "dict_get d k = (case d k of None \<Rightarrow> PNone | Some v \<Rightarrow> v)"

text \<open>
  \<^verbatim>\<open>str(v)\<close>, the text a cookie stores for the value it is given: a string is itself,
  \<^verbatim>\<open>None\<close> is the four characters "None", a boolean is "True" or "False", an integer
  is its decimal numeral.
\<close>

fun str_nat :: "nat \<Rightarrow> string" where
  "str_nat n =
     (if n < 10 then [''0123456789'' ! n]
      else str_nat (n div 10) @ [''0123456789'' ! (n mod 10)])"

declare str_nat.simps [simp del]

definition str_int :: "int \<Rightarrow> string" where
  "str_int i = (if i < 0 then CHR ''-'' # str_nat (nat (- i)) else str_nat (nat i))"

fun py_str :: "pyval \<Rightarrow> string" where
  "py_str PNone = ''None''"
| "py_str (PStr s) = s"
| "py_str (PInt i) = str_int i"
| "py_str (PBool b) = (if b then ''True'' else ''False'')"

text \<open>
  The exceptions that can leave a view: the two that an item assignment raises, and
  whatever the wrapped library view raises, named by its class.
\<close>

datatype exn = AttributeError | TypeError | Raised string

text \<open>
  \<^verbatim>\<open>request.data\<close>, the parsed body, is what the parser of the request's content type
  built: a dict for a JSON object (\<open>Dict\<close>, which also stands for any mapping that accepts
  an assignment), an immutable \<^verbatim>\<open>QueryDict\<close> for a form body, and for any other JSON
  text the parsed value itself, which is no mapping (\<open>NonDict\<close>). The item assignment
  \<^verbatim>\<open>request.data[key] = v\<close> stores into the dict, raises \<^verbatim>\<open>AttributeError\<close> on the
  immutable \<^verbatim>\<open>QueryDict\<close> and \<^verbatim>\<open>TypeError\<close> on a value that is no mapping.
\<close>

datatype request_data = Dict pydict | QueryDict pydict | NonDict pyval

definition setitem :: "request_data \<Rightarrow> string \<Rightarrow> pyval \<Rightarrow> exn + request_data" where
  "setitem d key v =
     (case d of
        Dict m \<Rightarrow> Inr (Dict (m(key \<mapsto> v)))
      | QueryDict q \<Rightarrow> Inl AttributeError
      | NonDict j \<Rightarrow> Inl TypeError)"

text \<open>
  Of a request the views read \<^verbatim>\<open>request.COOKIES\<close> (cookie names to the strings the client
  sent) and write \<^verbatim>\<open>request.data\<close>.
\<close>

record request =
  COOKIES :: "string \<rightharpoonup> string"
  data :: request_data

text \<open>
  What \<^verbatim>\<open>set_cookie\<close> stores under a cookie's name: the text of the value it was given
  and the five attributes the views pass. \<^verbatim>\<open>delete_cookie\<close> stores the instruction to
  drop the cookie.
\<close>

record morsel =
  "value" :: string
  max_age :: int
  path :: string
  secure :: bool
  httponly :: bool
  samesite :: string

datatype cookie_header = SetCookie morsel | DeleteCookie

text \<open>
  A response has a status code, a body and the cookies set on it (a dict keyed by cookie
  name, so a later call for the same name replaces the earlier one). The body type is a
  parameter: the wrapped library views build the body from serializer data, a dict, and
  \<^verbatim>\<open>Response(status=...)\<close> without data has the body \<^verbatim>\<open>None\<close>.
\<close>

record 'b response =
  status_code :: int
  data :: 'b
  cookies :: "string \<rightharpoonup> cookie_header"

definition Response :: "'b \<Rightarrow> int \<Rightarrow> 'b response" where
  "Response d s = \<lparr>status_code = s, data = d, cookies = Map.empty\<rparr>"

definition set_cookie ::
  "string \<Rightarrow> pyval \<Rightarrow> int \<Rightarrow> string \<Rightarrow> bool \<Rightarrow> bool \<Rightarrow> string \<Rightarrow> 'b response \<Rightarrow> 'b response" where
  "set_cookie key v age p sec ho ss response =
     response\<lparr>cookies := (cookies response)(key \<mapsto>
       SetCookie \<lparr>value = py_str v, max_age = age, path = p, secure = sec, httponly = ho,
                  samesite = ss\<rparr>)\<rparr>"

definition delete_cookie :: "string \<Rightarrow> 'b response \<Rightarrow> 'b response" where
  "delete_cookie key response = response\<lparr>cookies := (cookies response)(key \<mapsto> DeleteCookie)\<rparr>"

text \<open>The two status constants of \<^verbatim>\<open>rest_framework.status\<close> that the views name.\<close>

definition HTTP_200_OK :: int where
  "HTTP_200_OK = 200"

definition HTTP_204_NO_CONTENT :: int where
  "HTTP_204_NO_CONTENT = 204"

text \<open>
  The six \<^verbatim>\<open>settings.AUTH_COOKIE_*\<close> values. The settings module is not part of the
  sources, so every view takes the settings as a parameter.
\<close>

record settings =
  AUTH_COOKIE_ACCESS_MAX_AGE :: int
  AUTH_COOKIE_REFRESH_MAX_AGE :: int
  AUTH_COOKIE_PATH :: string
  AUTH_COOKIE_SECURE :: bool
  AUTH_COOKIE_HTTP_ONLY :: bool
  AUTH_COOKIE_SAMESITE :: string

section \<open>The views\<close>

text \<open>
  \<^verbatim>\<open>super().post(request, ...)\<close> is the wrapped library view. It is a parameter
  \<open>super_post\<close> of each view: given the request it either raises (\<open>Inl\<close>, the exception
  leaves the view as it came) or returns a response whose body is a dict (\<open>Inr\<close>).
\<close>

type_synonym 'e delegate = "request \<Rightarrow> 'e + pydict response"

text \<open>\<^verbatim>\<open>CustomProviderAuthView.post\<close>, lines 37 to 64.\<close>

definition CustomProviderAuthView_post ::
  "settings \<Rightarrow> 'e delegate \<Rightarrow> request \<Rightarrow> 'e + pydict response" where
  "CustomProviderAuthView_post settings super_post request =
     (case super_post request of
        Inl e \<Rightarrow> Inl e
      | Inr response \<Rightarrow>
          if status_code response = 201 then
            let access_token = dict_get (response.data response) ''access'';
                refresh_token = dict_get (response.data response) ''refresh'';
                response = set_cookie ''access'' access_token
                  (AUTH_COOKIE_ACCESS_MAX_AGE settings) (AUTH_COOKIE_PATH settings)
                  (AUTH_COOKIE_SECURE settings) (AUTH_COOKIE_HTTP_ONLY settings)
                  (AUTH_COOKIE_SAMESITE settings) response;
                response = set_cookie ''refresh'' refresh_token
                  (AUTH_COOKIE_REFRESH_MAX_AGE settings) (AUTH_COOKIE_PATH settings)
                  (AUTH_COOKIE_SECURE settings) (AUTH_COOKIE_HTTP_ONLY settings)
                  (AUTH_COOKIE_SAMESITE settings) response
            in Inr response
          else Inr response)"

text \<open>\<^verbatim>\<open>CustomTokenObtainPairView.post\<close>, lines 90 to 117.\<close>

definition CustomTokenObtainPairView_post ::
  "settings \<Rightarrow> 'e delegate \<Rightarrow> request \<Rightarrow> 'e + pydict response" where
  "CustomTokenObtainPairView_post settings super_post request =
     (case super_post request of
        Inl e \<Rightarrow> Inl e
      | Inr response \<Rightarrow>
          if status_code response = 200 then
            let access_token = dict_get (response.data response) ''access'';
                refresh_token = dict_get (response.data response) ''refresh'';
                response = set_cookie ''access'' access_token
                  (AUTH_COOKIE_ACCESS_MAX_AGE settings) (AUTH_COOKIE_PATH settings)
                  (AUTH_COOKIE_SECURE settings) (AUTH_COOKIE_HTTP_ONLY settings)
                  (AUTH_COOKIE_SAMESITE settings) response;
                response = set_cookie ''refresh'' refresh_token
                  (AUTH_COOKIE_REFRESH_MAX_AGE settings) (AUTH_COOKIE_PATH settings)
                  (AUTH_COOKIE_SECURE settings) (AUTH_COOKIE_HTTP_ONLY settings)
                  (AUTH_COOKIE_SAMESITE settings) response
            in Inr response
          else Inr response)"

text \<open>
  \<^verbatim>\<open>CustomTokenRefreshView.post\<close>, lines 141 to 162, in its two steps. Lines 142 to 145
  prepare the request the wrapped view will see: \<^verbatim>\<open>request.COOKIES.get("refresh")\<close> is
  \<^verbatim>\<open>None\<close> or a string, \<^verbatim>\<open>if refresh_token:\<close> holds for a string that is not empty,
  and the assignment of line 145 can raise. Lines 147 to 162 call the wrapped view on the
  prepared request; an exception of line 145 leaves the view before that call.
\<close>

definition CustomTokenRefreshView_request :: "request \<Rightarrow> exn + request" where
  "CustomTokenRefreshView_request request =
     (let refresh_token = COOKIES request ''refresh''
      in case refresh_token of
           None \<Rightarrow> Inr request
         | Some s \<Rightarrow>
             if s \<noteq> [] then
               (case setitem (request.data request) ''refresh'' (PStr s) of
                  Inl e \<Rightarrow> Inl e
                | Inr d \<Rightarrow> Inr (request\<lparr>request.data := d\<rparr>))
             else Inr request)"

definition CustomTokenRefreshView_post ::
  "settings \<Rightarrow> exn delegate \<Rightarrow> request \<Rightarrow> exn + pydict response" where
  "CustomTokenRefreshView_post settings super_post request =
     (case CustomTokenRefreshView_request request of
        Inl e \<Rightarrow> Inl e
      | Inr request \<Rightarrow>
          (case super_post request of
             Inl e \<Rightarrow> Inl e
           | Inr response \<Rightarrow>
               if status_code response = 200 then
                 let access_token = dict_get (response.data response) ''access'';
                     response = set_cookie ''access'' access_token
                       (AUTH_COOKIE_ACCESS_MAX_AGE settings) (AUTH_COOKIE_PATH settings)
                       (AUTH_COOKIE_SECURE settings) (AUTH_COOKIE_HTTP_ONLY settings)
                       (AUTH_COOKIE_SAMESITE settings) response
                 in Inr response
               else Inr response))"

text \<open>
  \<^verbatim>\<open>CustomTokenVerifyView.post\<close>, lines 166 to 172: lines 167 to 170 prepare the request
  (the assignment of line 170 can raise), line 172 returns what the wrapped view returns.
\<close>

definition CustomTokenVerifyView_request :: "request \<Rightarrow> exn + request" where
  "CustomTokenVerifyView_request request =
     (let access_token = COOKIES request ''access''
      in case access_token of
           None \<Rightarrow> Inr request
         | Some s \<Rightarrow>
             if s \<noteq> [] then
               (case setitem (request.data request) ''token'' (PStr s) of
                  Inl e \<Rightarrow> Inl e
                | Inr d \<Rightarrow> Inr (request\<lparr>request.data := d\<rparr>))
             else Inr request)"

definition CustomTokenVerifyView_post ::
  "exn delegate \<Rightarrow> request \<Rightarrow> exn + pydict response" where
  "CustomTokenVerifyView_post super_post request =
     (case CustomTokenVerifyView_request request of
        Inl e \<Rightarrow> Inl e
      | Inr request \<Rightarrow> super_post request)"

text \<open>
  \<^verbatim>\<open>LogoutView.post\<close>, lines 176 to 181. The view calls no wrapped view and has no
  \<^verbatim>\<open>raise\<close>, so it is a function from requests to responses; the body of
  \<^verbatim>\<open>Response(status=...)\<close> is \<^verbatim>\<open>None\<close>.
\<close>

definition LogoutView_post :: "request \<Rightarrow> pydict option response" where
  "LogoutView_post request =
     (let response = Response None HTTP_204_NO_CONTENT;
          response = delete_cookie ''access'' response;
          response = delete_cookie ''refresh'' response
      in response)"

text \<open>
  The three policy views, lines 184 to 218. Each declares
  \<^verbatim>\<open>permission_classes = [AllowAny]\<close> and answers with its literal text; the triple-quoted
  literals of the last two start with a line break and eight spaces and end the same way.
\<close>

datatype permission = AllowAny | IsAuthenticated

definition PrivacyPolicyView_permission_classes :: "permission list" where
  "PrivacyPolicyView_permission_classes = [AllowAny]"

definition PrivacyPolicyView_get :: "request \<Rightarrow> pydict response" where
  "PrivacyPolicyView_get request =
     (let privacy_policy_text = ''This is the privacy policy of our application. We value your privacy and are committed to protecting your personal information.''
      in Response [''message'' \<mapsto> PStr privacy_policy_text] HTTP_200_OK)"

definition TermsOfServiceView_permission_classes :: "permission list" where
  "TermsOfServiceView_permission_classes = [AllowAny]"

definition TermsOfServiceView_get :: "request \<Rightarrow> pydict response" where
  "TermsOfServiceView_get request =
     (let terms_of_service_text = ''\<newline>        These are the terms of service of our application. By using our service, you agree to comply with these terms.\<newline>        ''
      in Response [''message'' \<mapsto> PStr terms_of_service_text] HTTP_200_OK)"

definition DataDeletionPolicyView_permission_classes :: "permission list" where
  "DataDeletionPolicyView_permission_classes = [AllowAny]"

definition DataDeletionPolicyView_get :: "request \<Rightarrow> pydict response" where
  "DataDeletionPolicyView_get request =
     (let data_deletion_policy_text = ''\<newline>        This is the data deletion policy of our application. You can request the deletion of your personal data at any time.\<newline>        ''
      in Response [''message'' \<mapsto> PStr data_deletion_policy_text] HTTP_200_OK)"

section \<open>Concrete settings, requests and wrapped views\<close>

text \<open>
  Inputs on which the theorems below are run: one settings record, requests with and
  without cookies and with a JSON or a form body, and wrapped views that issue tokens,
  reject, raise, or answer with the fields of the request they were given (so that the
  response shows what they received).
\<close>

definition demo_settings :: settings where
  "demo_settings =
     \<lparr>AUTH_COOKIE_ACCESS_MAX_AGE = 300, AUTH_COOKIE_REFRESH_MAX_AGE = 86400,
      AUTH_COOKIE_PATH = ''/'', AUTH_COOKIE_SECURE = True, AUTH_COOKIE_HTTP_ONLY = True,
      AUTH_COOKIE_SAMESITE = ''None''\<rparr>"

definition plain_request :: request where
  "plain_request =
     \<lparr>COOKIES = Map.empty, request.data = Dict [''email'' \<mapsto> PStr ''a@b.c'']\<rparr>"

definition refresh_cookie_request :: request where
  "refresh_cookie_request =
     \<lparr>COOKIES = [''refresh'' \<mapsto> ''R''], request.data = Dict Map.empty\<rparr>"

definition access_cookie_request :: request where
  "access_cookie_request =
     \<lparr>COOKIES = [''access'' \<mapsto> ''A''], request.data = Dict [''token'' \<mapsto> PStr ''B'']\<rparr>"

definition empty_refresh_cookie_request :: request where
  "empty_refresh_cookie_request =
     \<lparr>COOKIES = [''refresh'' \<mapsto> ''''], request.data = Dict [''refresh'' \<mapsto> PStr ''B'']\<rparr>"

definition empty_access_cookie_request :: request where
  "empty_access_cookie_request =
     \<lparr>COOKIES = [''access'' \<mapsto> ''''], request.data = Dict [''token'' \<mapsto> PStr ''B'']\<rparr>"

definition form_refresh_cookie_request :: request where
  "form_refresh_cookie_request =
     \<lparr>COOKIES = [''refresh'' \<mapsto> ''R''], request.data = QueryDict [''refresh'' \<mapsto> PStr ''B'']\<rparr>"

definition form_access_cookie_request :: request where
  "form_access_cookie_request =
     \<lparr>COOKIES = [''access'' \<mapsto> ''A''], request.data = QueryDict [''token'' \<mapsto> PStr ''B'']\<rparr>"

definition token_pair_body :: pydict where
  "token_pair_body = [''access'' \<mapsto> PStr ''A1'', ''refresh'' \<mapsto> PStr ''R1'']"

definition issue_200 :: "exn delegate" where
  "issue_200 request = Inr (Response token_pair_body 200)"

definition issue_201 :: "exn delegate" where
  "issue_201 request = Inr (Response token_pair_body 201)"

definition reject_401 :: "exn delegate" where
  "reject_401 request = Inr (Response [''detail'' \<mapsto> PStr ''No active account''] 401)"

definition empty_200 :: "exn delegate" where
  "empty_200 request = Inr (Response Map.empty 200)"

definition empty_201 :: "exn delegate" where
  "empty_201 request = Inr (Response Map.empty 201)"

definition raise_invalid :: "exn delegate" where
  "raise_invalid request = Inl (Raised ''InvalidToken'')"

definition fields :: "request_data \<Rightarrow> pydict" where
  "fields d = (case d of Dict m \<Rightarrow> m | QueryDict q \<Rightarrow> q | NonDict j \<Rightarrow> Map.empty)"

definition echo_400 :: "exn delegate" where
  "echo_400 request = Inr (Response (fields (request.data request)) 400)"

section \<open>Facts about the operations\<close>

text \<open>
  What \<open>dict_get\<close>, \<open>setitem\<close> and \<open>set_cookie\<close> do, how the refresh and verify views
  prepare the request for each cookie and each kind of body, and each view's result by
  the outcome of the wrapped view: an exception, a response with the success status, a
  response with another status.
\<close>

lemma dict_get_present: "d k = Some v \<Longrightarrow> dict_get d k = v"
  by (simp add: dict_get_def)

lemma dict_get_absent: "d k = None \<Longrightarrow> dict_get d k = PNone"
  by (simp add: dict_get_def)

lemma set_cookie_status_code:
  "status_code (set_cookie key v age p sec ho ss response) = status_code response"
  by (simp add: set_cookie_def)

lemma set_cookie_data:
  "response.data (set_cookie key v age p sec ho ss response) = response.data response"
  by (simp add: set_cookie_def)

lemma set_cookie_cookies:
  "cookies (set_cookie key v age p sec ho ss response) =
     (cookies response)(key \<mapsto>
       SetCookie \<lparr>value = py_str v, max_age = age, path = p, secure = sec, httponly = ho,
                  samesite = ss\<rparr>)"
  by (simp add: set_cookie_def)

lemma setitem_Dict: "setitem (Dict m) key v = Inr (Dict (m(key \<mapsto> v)))"
  by (simp add: setitem_def)


lemma setitem_NonDict: "setitem (NonDict j) key v = Inl TypeError"
  by (simp add: setitem_def)

lemma CustomTokenObtainPairView_post_raise:
  "super_post request = Inl e \<Longrightarrow>
     CustomTokenObtainPairView_post settings super_post request = Inl e"
  by (simp add: CustomTokenObtainPairView_post_def)

lemma CustomTokenObtainPairView_post_other:
  "super_post request = Inr response \<Longrightarrow> status_code response \<noteq> 200 \<Longrightarrow>
     CustomTokenObtainPairView_post settings super_post request = Inr response"
  by (simp add: CustomTokenObtainPairView_post_def)

lemma CustomTokenObtainPairView_post_success:
  "super_post request = Inr response \<Longrightarrow> status_code response = 200 \<Longrightarrow>
     CustomTokenObtainPairView_post settings super_post request =
       Inr (set_cookie ''refresh'' (dict_get (response.data response) ''refresh'')
              (AUTH_COOKIE_REFRESH_MAX_AGE settings) (AUTH_COOKIE_PATH settings)
              (AUTH_COOKIE_SECURE settings) (AUTH_COOKIE_HTTP_ONLY settings)
              (AUTH_COOKIE_SAMESITE settings)
           (set_cookie ''access'' (dict_get (response.data response) ''access'')
              (AUTH_COOKIE_ACCESS_MAX_AGE settings) (AUTH_COOKIE_PATH settings)
              (AUTH_COOKIE_SECURE settings) (AUTH_COOKIE_HTTP_ONLY settings)
              (AUTH_COOKIE_SAMESITE settings) response))"
  by (simp add: CustomTokenObtainPairView_post_def Let_def)

lemma CustomProviderAuthView_post_raise:
  "super_post request = Inl e \<Longrightarrow>
     CustomProviderAuthView_post settings super_post request = Inl e"
  by (simp add: CustomProviderAuthView_post_def)

lemma CustomProviderAuthView_post_other:
  "super_post request = Inr response \<Longrightarrow> status_code response \<noteq> 201 \<Longrightarrow>
     CustomProviderAuthView_post settings super_post request = Inr response"
  by (simp add: CustomProviderAuthView_post_def)

lemma CustomProviderAuthView_post_success:
  "super_post request = Inr response \<Longrightarrow> status_code response = 201 \<Longrightarrow>
     CustomProviderAuthView_post settings super_post request =
       Inr (set_cookie ''refresh'' (dict_get (response.data response) ''refresh'')
              (AUTH_COOKIE_REFRESH_MAX_AGE settings) (AUTH_COOKIE_PATH settings)
              (AUTH_COOKIE_SECURE settings) (AUTH_COOKIE_HTTP_ONLY settings)
              (AUTH_COOKIE_SAMESITE settings)
           (set_cookie ''access'' (dict_get (response.data response) ''access'')
              (AUTH_COOKIE_ACCESS_MAX_AGE settings) (AUTH_COOKIE_PATH settings)
              (AUTH_COOKIE_SECURE settings) (AUTH_COOKIE_HTTP_ONLY settings)
              (AUTH_COOKIE_SAMESITE settings) response))"
  by (simp add: CustomProviderAuthView_post_def Let_def)

lemma CustomTokenRefreshView_request_absent:
  "COOKIES request ''refresh'' = None \<Longrightarrow> CustomTokenRefreshView_request request = Inr request"
  by (simp add: CustomTokenRefreshView_request_def)


lemma CustomTokenRefreshView_request_Dict:
  "COOKIES request ''refresh'' = Some s \<Longrightarrow> s \<noteq> [] \<Longrightarrow> request.data request = Dict m \<Longrightarrow>
     CustomTokenRefreshView_request request =
       Inr (request\<lparr>request.data := Dict (m(''refresh'' \<mapsto> PStr s))\<rparr>)"
  by (simp add: CustomTokenRefreshView_request_def setitem_Dict)


lemma CustomTokenRefreshView_request_NonDict:
  "COOKIES request ''refresh'' = Some s \<Longrightarrow> s \<noteq> [] \<Longrightarrow> request.data request = NonDict j \<Longrightarrow>
     CustomTokenRefreshView_request request = Inl TypeError"
  by (simp add: CustomTokenRefreshView_request_def setitem_NonDict)



lemma CustomTokenVerifyView_request_Dict:
  "COOKIES request ''access'' = Some s \<Longrightarrow> s \<noteq> [] \<Longrightarrow> request.data request = Dict m \<Longrightarrow>
     CustomTokenVerifyView_request request =
       Inr (request\<lparr>request.data := Dict (m(''token'' \<mapsto> PStr s))\<rparr>)"
  by (simp add: CustomTokenVerifyView_request_def setitem_Dict)


lemma CustomTokenVerifyView_request_NonDict:
  "COOKIES request ''access'' = Some s \<Longrightarrow> s \<noteq> [] \<Longrightarrow> request.data request = NonDict j \<Longrightarrow>
     CustomTokenVerifyView_request request = Inl TypeError"
  by (simp add: CustomTokenVerifyView_request_def setitem_NonDict)

lemma CustomTokenRefreshView_post_not_called:
  "CustomTokenRefreshView_request request = Inl e \<Longrightarrow>
     CustomTokenRefreshView_post settings super_post request = Inl e"
  by (simp add: CustomTokenRefreshView_post_def)

lemma CustomTokenRefreshView_post_raise:
  "CustomTokenRefreshView_request request = Inr request' \<Longrightarrow> super_post request' = Inl e \<Longrightarrow>
     CustomTokenRefreshView_post settings super_post request = Inl e"
  by (simp add: CustomTokenRefreshView_post_def)

lemma CustomTokenRefreshView_post_other:
  "CustomTokenRefreshView_request request = Inr request' \<Longrightarrow>
   super_post request' = Inr response \<Longrightarrow> status_code response \<noteq> 200 \<Longrightarrow>
     CustomTokenRefreshView_post settings super_post request = Inr response"
  by (simp add: CustomTokenRefreshView_post_def)

lemma CustomTokenRefreshView_post_success:
  "CustomTokenRefreshView_request request = Inr request' \<Longrightarrow>
   super_post request' = Inr response \<Longrightarrow> status_code response = 200 \<Longrightarrow>
     CustomTokenRefreshView_post settings super_post request =
       Inr (set_cookie ''access'' (dict_get (response.data response) ''access'')
              (AUTH_COOKIE_ACCESS_MAX_AGE settings) (AUTH_COOKIE_PATH settings)
              (AUTH_COOKIE_SECURE settings) (AUTH_COOKIE_HTTP_ONLY settings)
              (AUTH_COOKIE_SAMESITE settings) response)"
  by (simp add: CustomTokenRefreshView_post_def Let_def)

lemma CustomTokenRefreshView_post_called:
  "CustomTokenRefreshView_request request = Inr request' \<Longrightarrow>
     CustomTokenRefreshView_post settings super_post request =
       CustomTokenRefreshView_post settings (\<lambda>_. super_post request') request"
  by (simp add: CustomTokenRefreshView_post_def)

lemma CustomTokenVerifyView_post_not_called:
  "CustomTokenVerifyView_request request = Inl e \<Longrightarrow>
     CustomTokenVerifyView_post super_post request = Inl e"
  by (simp add: CustomTokenVerifyView_post_def)

lemma CustomTokenVerifyView_post_called:
  "CustomTokenVerifyView_request request = Inr request' \<Longrightarrow>
     CustomTokenVerifyView_post super_post request = super_post request'"
  by (simp add: CustomTokenVerifyView_post_def)

section \<open>Properties of the views\<close>

text \<open>
  C1. Password login (\<^verbatim>\<open>CustomTokenObtainPairView.post\<close>, success status 200) and
  social login (\<^verbatim>\<open>CustomProviderAuthView.post\<close>, success status 201): when the wrapped
  view returns a response with the success status, the view returns a response whose
  cookie "access" holds the body's field "access" and whose cookie "refresh" holds the
  body's field "refresh" (\<open>dict_get\<close>, the source's \<^verbatim>\<open>.get\<close>; the cookie stores the
  field's text \<open>py_str\<close>, for a token string the string itself), the first with the
  access max-age, the second with the refresh max-age, both with the path, secure,
  http-only and same-site values of the settings.
\<close>

theorem login_success_sets_token_cookies:
  "(super_post request = Inr response \<and> status_code response = 200 \<longrightarrow>
      (\<exists>response'. CustomTokenObtainPairView_post settings super_post request = Inr response'
         \<and> cookies response' ''access'' = Some (SetCookie
              \<lparr>value = py_str (dict_get (response.data response) ''access''),
               max_age = AUTH_COOKIE_ACCESS_MAX_AGE settings, path = AUTH_COOKIE_PATH settings,
               secure = AUTH_COOKIE_SECURE settings, httponly = AUTH_COOKIE_HTTP_ONLY settings,
               samesite = AUTH_COOKIE_SAMESITE settings\<rparr>)
         \<and> cookies response' ''refresh'' = Some (SetCookie
              \<lparr>value = py_str (dict_get (response.data response) ''refresh''),
               max_age = AUTH_COOKIE_REFRESH_MAX_AGE settings, path = AUTH_COOKIE_PATH settings,
               secure = AUTH_COOKIE_SECURE settings, httponly = AUTH_COOKIE_HTTP_ONLY settings,
               samesite = AUTH_COOKIE_SAMESITE settings\<rparr>)))
   \<and> (super_post request = Inr response \<and> status_code response = 201 \<longrightarrow>
      (\<exists>response'. CustomProviderAuthView_post settings super_post request = Inr response'
         \<and> cookies response' ''access'' = Some (SetCookie
              \<lparr>value = py_str (dict_get (response.data response) ''access''),
               max_age = AUTH_COOKIE_ACCESS_MAX_AGE settings, path = AUTH_COOKIE_PATH settings,
               secure = AUTH_COOKIE_SECURE settings, httponly = AUTH_COOKIE_HTTP_ONLY settings,
               samesite = AUTH_COOKIE_SAMESITE settings\<rparr>)
         \<and> cookies response' ''refresh'' = Some (SetCookie
              \<lparr>value = py_str (dict_get (response.data response) ''refresh''),
               max_age = AUTH_COOKIE_REFRESH_MAX_AGE settings, path = AUTH_COOKIE_PATH settings,
               secure = AUTH_COOKIE_SECURE settings, httponly = AUTH_COOKIE_HTTP_ONLY settings,
               samesite = AUTH_COOKIE_SAMESITE settings\<rparr>)))"
  by (simp add: CustomTokenObtainPairView_post_success CustomProviderAuthView_post_success
      set_cookie_cookies)

text \<open>
  The theorem on a wrapped view that issues the pair "A1", "R1".
\<close>

theorem login_success_sets_token_cookies_witness:
  "issue_200 plain_request = Inr (Response token_pair_body 200)
   \<and> status_code (Response token_pair_body 200) = 200
   \<and> (\<exists>response'. CustomTokenObtainPairView_post demo_settings issue_200 plain_request = Inr response'
         \<and> cookies response' ''access'' = Some (SetCookie
              \<lparr>value = ''A1'', max_age = 300, path = ''/'', secure = True, httponly = True,
               samesite = ''None''\<rparr>)
         \<and> cookies response' ''refresh'' = Some (SetCookie
              \<lparr>value = ''R1'', max_age = 86400, path = ''/'', secure = True, httponly = True,
               samesite = ''None''\<rparr>))
   \<and> issue_201 plain_request = Inr (Response token_pair_body 201)
   \<and> status_code (Response token_pair_body 201) = 201
   \<and> (\<exists>response'. CustomProviderAuthView_post demo_settings issue_201 plain_request = Inr response'
         \<and> cookies response' ''access'' = Some (SetCookie
              \<lparr>value = ''A1'', max_age = 300, path = ''/'', secure = True, httponly = True,
               samesite = ''None''\<rparr>)
         \<and> cookies response' ''refresh'' = Some (SetCookie
              \<lparr>value = ''R1'', max_age = 86400, path = ''/'', secure = True, httponly = True,
               samesite = ''None''\<rparr>))"
  using login_success_sets_token_cookies
      [where super_post = issue_200 and request = plain_request
         and response = "Response token_pair_body 200" and settings = demo_settings]
    login_success_sets_token_cookies
      [where super_post = issue_201 and request = plain_request
         and response = "Response token_pair_body 201" and settings = demo_settings]
  by (simp add: issue_200_def issue_201_def Response_def token_pair_body_def demo_settings_def
      dict_get_def)

text \<open>
  C2, as the code has it. Token refresh: when the request carries a cookie "refresh"
  whose value \<open>R\<close> is not the empty string, and the body of the request is a dict (a
  JSON object), the wrapped view is called on the inbound request with the body field
  "refresh" set to \<open>R\<close>, whatever the body held under that key: the view's result is
  determined by the wrapped view's answer to that request, an exception of that call
  leaves the view, and a response of that call is returned with its status and body.
\<close>

theorem refresh_cookie_injected_when_nonempty:
  "COOKIES request ''refresh'' = Some R \<and> R \<noteq> [] \<and> request.data request = Dict d \<longrightarrow>
     CustomTokenRefreshView_request request = Inr (request\<lparr>request.data := Dict (d(''refresh'' \<mapsto> PStr R))\<rparr>)
     \<and> CustomTokenRefreshView_post settings super_post request =
         CustomTokenRefreshView_post settings (\<lambda>_. super_post (request\<lparr>request.data := Dict (d(''refresh'' \<mapsto> PStr R))\<rparr>)) request
     \<and> (super_post (request\<lparr>request.data := Dict (d(''refresh'' \<mapsto> PStr R))\<rparr>) = Inl e \<longrightarrow>
          CustomTokenRefreshView_post settings super_post request = Inl e)
     \<and> (super_post (request\<lparr>request.data := Dict (d(''refresh'' \<mapsto> PStr R))\<rparr>) = Inr response \<longrightarrow>
          (\<exists>response'. CustomTokenRefreshView_post settings super_post request = Inr response'
             \<and> status_code response' = status_code response
             \<and> response.data response' = response.data response))"
proof (intro impI)
  assume cookie: "COOKIES request ''refresh'' = Some R \<and> R \<noteq> [] \<and> request.data request = Dict d"
  then have prepared: "CustomTokenRefreshView_request request = Inr (request\<lparr>request.data := Dict (d(''refresh'' \<mapsto> PStr R))\<rparr>)"
    by (simp add: CustomTokenRefreshView_request_Dict)
  have called: "CustomTokenRefreshView_post settings super_post request =
      CustomTokenRefreshView_post settings (\<lambda>_. super_post (request\<lparr>request.data := Dict (d(''refresh'' \<mapsto> PStr R))\<rparr>)) request"
    using prepared by (rule CustomTokenRefreshView_post_called)
  have raised: "super_post (request\<lparr>request.data := Dict (d(''refresh'' \<mapsto> PStr R))\<rparr>) = Inl e \<longrightarrow>
      CustomTokenRefreshView_post settings super_post request = Inl e"
    using prepared by (simp add: CustomTokenRefreshView_post_raise)
  have returned: "super_post (request\<lparr>request.data := Dict (d(''refresh'' \<mapsto> PStr R))\<rparr>) = Inr response \<longrightarrow>
      (\<exists>response'. CustomTokenRefreshView_post settings super_post request = Inr response'
         \<and> status_code response' = status_code response
         \<and> response.data response' = response.data response)"
  proof (cases "status_code response = 200")
    case True
    with prepared show ?thesis
      by (simp add: CustomTokenRefreshView_post_success set_cookie_status_code set_cookie_data)
  next
    case False
    with prepared show ?thesis
      by (simp add: CustomTokenRefreshView_post_other)
  qed
  from prepared called raised returned
  show "CustomTokenRefreshView_request request = Inr (request\<lparr>request.data := Dict (d(''refresh'' \<mapsto> PStr R))\<rparr>)
     \<and> CustomTokenRefreshView_post settings super_post request =
         CustomTokenRefreshView_post settings (\<lambda>_. super_post (request\<lparr>request.data := Dict (d(''refresh'' \<mapsto> PStr R))\<rparr>)) request
     \<and> (super_post (request\<lparr>request.data := Dict (d(''refresh'' \<mapsto> PStr R))\<rparr>) = Inl e \<longrightarrow>
          CustomTokenRefreshView_post settings super_post request = Inl e)
     \<and> (super_post (request\<lparr>request.data := Dict (d(''refresh'' \<mapsto> PStr R))\<rparr>) = Inr response \<longrightarrow>
          (\<exists>response'. CustomTokenRefreshView_post settings super_post request = Inr response'
             \<and> status_code response' = status_code response
             \<and> response.data response' = response.data response))"
    by blast
qed

text \<open>
  The theorem on the request with the cookie refresh = "R" and a JSON body without the
  field "refresh": the wrapped view that answers with the fields it received shows the
  field "R"; the wrapped view that raises is seen to have been called.
\<close>

theorem refresh_cookie_injected_when_nonempty_witness:
  "COOKIES refresh_cookie_request ''refresh'' = Some ''R'' \<and> ''R'' \<noteq> []
   \<and> request.data refresh_cookie_request = Dict Map.empty
   \<and> CustomTokenRefreshView_post demo_settings echo_400 refresh_cookie_request =
       Inr (Response [''refresh'' \<mapsto> PStr ''R''] 400)
   \<and> CustomTokenRefreshView_post demo_settings raise_invalid refresh_cookie_request =
       Inl (Raised ''InvalidToken'')"
  using refresh_cookie_injected_when_nonempty
      [where request = refresh_cookie_request and R = "''R''" and d = Map.empty
         and settings = demo_settings and super_post = echo_400
         and response = "Response [''refresh'' \<mapsto> PStr ''R''] 400"]
    refresh_cookie_injected_when_nonempty
      [where request = refresh_cookie_request and R = "''R''" and d = Map.empty
         and settings = demo_settings and super_post = raise_invalid
         and e = "Raised ''InvalidToken''"]
  by (simp add: refresh_cookie_request_def echo_400_def raise_invalid_def Response_def
      fields_def CustomTokenRefreshView_post_def)

text \<open>
  C2 as stated, for every cookie that is present, fails in two ways. The cookie
  "refresh" is present with the value "" and the body field "refresh" is "B": the
  wrapped view receives "B", not the cookie's value. The cookie "refresh" is "R" and the
  body is a form body: the assignment raises, and the wrapped view is not called.
\<close>

theorem refresh_empty_cookie_not_injected:
  "COOKIES empty_refresh_cookie_request ''refresh'' = Some ''''
   \<and> CustomTokenRefreshView_request empty_refresh_cookie_request =
       Inr empty_refresh_cookie_request
   \<and> request.data empty_refresh_cookie_request = Dict [''refresh'' \<mapsto> PStr ''B'']
   \<and> CustomTokenRefreshView_post demo_settings echo_400 empty_refresh_cookie_request =
       Inr (Response [''refresh'' \<mapsto> PStr ''B''] 400)
   \<and> COOKIES form_refresh_cookie_request ''refresh'' = Some ''R''
   \<and> CustomTokenRefreshView_post demo_settings echo_400 form_refresh_cookie_request =
       Inl AttributeError"
  by (simp add: empty_refresh_cookie_request_def form_refresh_cookie_request_def
      CustomTokenRefreshView_request_def CustomTokenRefreshView_post_def setitem_def
      echo_400_def fields_def Response_def)

text \<open>
  C3, as the code has it. Token verify: when the request carries a cookie "access" whose
  value \<open>A\<close> is not the empty string, and the body of the request is a dict (a JSON
  object), the view's outcome is the wrapped view's outcome on the inbound request with
  the body field "token" set to \<open>A\<close>, whatever the body held under that key. In every
  case in which the request was prepared the view's outcome is the wrapped view's
  outcome on the prepared request, response or exception, with nothing added; and every
  response the view returns is the response of the wrapped view: no cookie is set.
\<close>

theorem verify_cookie_injected_when_nonempty:
  "(COOKIES request ''access'' = Some A \<and> A \<noteq> [] \<and> request.data request = Dict d \<longrightarrow>
      CustomTokenVerifyView_request request = Inr (request\<lparr>request.data := Dict (d(''token'' \<mapsto> PStr A))\<rparr>)
      \<and> CustomTokenVerifyView_post super_post request = super_post (request\<lparr>request.data := Dict (d(''token'' \<mapsto> PStr A))\<rparr>))
   \<and> (CustomTokenVerifyView_request request = Inr request' \<longrightarrow>
      CustomTokenVerifyView_post super_post request = super_post request')
   \<and> (CustomTokenVerifyView_post super_post request = Inr response \<longrightarrow>
      (\<exists>request'. CustomTokenVerifyView_request request = Inr request'
         \<and> super_post request' = Inr response))"
proof (intro conjI impI)
  assume cookie: "COOKIES request ''access'' = Some A \<and> A \<noteq> [] \<and> request.data request = Dict d"
  then show prepared: "CustomTokenVerifyView_request request = Inr (request\<lparr>request.data := Dict (d(''token'' \<mapsto> PStr A))\<rparr>)"
    by (simp add: CustomTokenVerifyView_request_Dict)
  then show "CustomTokenVerifyView_post super_post request = super_post (request\<lparr>request.data := Dict (d(''token'' \<mapsto> PStr A))\<rparr>)"
    by (rule CustomTokenVerifyView_post_called)
next
  assume "CustomTokenVerifyView_request request = Inr request'"
  then show "CustomTokenVerifyView_post super_post request = super_post request'"
    by (rule CustomTokenVerifyView_post_called)
next
  assume returned: "CustomTokenVerifyView_post super_post request = Inr response"
  show "\<exists>request'. CustomTokenVerifyView_request request = Inr request'
      \<and> super_post request' = Inr response"
  proof (cases "CustomTokenVerifyView_request request")
    case (Inl e)
    with returned show ?thesis
      by (simp add: CustomTokenVerifyView_post_not_called)
  next
    case (Inr request')
    with returned show ?thesis
      by (simp add: CustomTokenVerifyView_post_called)
  qed
qed

text \<open>
  The theorem on the request with the cookie access = "A" and the JSON body token "B":
  the wrapped view receives "A"; an exception of the wrapped view leaves the view
  unchanged.
\<close>

theorem verify_cookie_injected_when_nonempty_witness:
  "COOKIES access_cookie_request ''access'' = Some ''A'' \<and> ''A'' \<noteq> []
   \<and> request.data access_cookie_request = Dict [''token'' \<mapsto> PStr ''B'']
   \<and> CustomTokenVerifyView_post echo_400 access_cookie_request =
       Inr (Response [''token'' \<mapsto> PStr ''A''] 400)
   \<and> CustomTokenVerifyView_post raise_invalid access_cookie_request =
       Inl (Raised ''InvalidToken'')
   \<and> (\<exists>request'. CustomTokenVerifyView_request access_cookie_request = Inr request'
         \<and> echo_400 request' = Inr (Response [''token'' \<mapsto> PStr ''A''] 400))"
  using verify_cookie_injected_when_nonempty
      [where request = access_cookie_request and A = "''A''"
         and d = "[''token'' \<mapsto> PStr ''B'']" and super_post = echo_400
         and response = "Response [''token'' \<mapsto> PStr ''A''] 400"]
    verify_cookie_injected_when_nonempty
      [where request = access_cookie_request and A = "''A''"
         and d = "[''token'' \<mapsto> PStr ''B'']" and super_post = raise_invalid]
  by (simp add: access_cookie_request_def echo_400_def raise_invalid_def Response_def
      fields_def)

text \<open>
  C3 as stated, for every cookie that is present, fails in two ways. The cookie
  "access" is present with the value "" and the body field "token" is "B": the wrapped
  view receives "B", not the cookie's value. The cookie "access" is "A" and the body is
  a form body: the assignment raises, and the wrapped view is not called.
\<close>

theorem verify_empty_cookie_not_injected:
  "COOKIES empty_access_cookie_request ''access'' = Some ''''
   \<and> CustomTokenVerifyView_request empty_access_cookie_request =
       Inr empty_access_cookie_request
   \<and> request.data empty_access_cookie_request = Dict [''token'' \<mapsto> PStr ''B'']
   \<and> CustomTokenVerifyView_post echo_400 empty_access_cookie_request =
       Inr (Response [''token'' \<mapsto> PStr ''B''] 400)
   \<and> COOKIES form_access_cookie_request ''access'' = Some ''A''
   \<and> CustomTokenVerifyView_post echo_400 form_access_cookie_request = Inl AttributeError"
  by (simp add: empty_access_cookie_request_def form_access_cookie_request_def
      CustomTokenVerifyView_request_def CustomTokenVerifyView_post_def setitem_def
      echo_400_def fields_def Response_def)

text \<open>
  C4. Password login with a status other than 200, and social login with a status other
  than 201: the view returns the response of the wrapped view itself, so no cookie is
  added and nothing else is changed.
\<close>

theorem login_failure_passes_through:
  "(super_post request = Inr response \<and> status_code response \<noteq> 200 \<longrightarrow>
      CustomTokenObtainPairView_post settings super_post request = Inr response)
   \<and> (super_post request = Inr response \<and> status_code response \<noteq> 201 \<longrightarrow>
      CustomProviderAuthView_post settings super_post request = Inr response)"
  by (simp add: CustomTokenObtainPairView_post_other CustomProviderAuthView_post_other)

text \<open>
  The theorem on a wrapped view that answers 401.
\<close>

theorem login_failure_passes_through_witness:
  "reject_401 plain_request = Inr (Response [''detail'' \<mapsto> PStr ''No active account''] 401)
   \<and> status_code (Response [''detail'' \<mapsto> PStr ''No active account''] 401) \<noteq> 200
   \<and> status_code (Response [''detail'' \<mapsto> PStr ''No active account''] 401) \<noteq> 201
   \<and> CustomTokenObtainPairView_post demo_settings reject_401 plain_request =
       Inr (Response [''detail'' \<mapsto> PStr ''No active account''] 401)
   \<and> CustomProviderAuthView_post demo_settings reject_401 plain_request =
       Inr (Response [''detail'' \<mapsto> PStr ''No active account''] 401)"
  using login_failure_passes_through
      [where super_post = reject_401 and request = plain_request
         and response = "Response [''detail'' \<mapsto> PStr ''No active account''] 401"
         and settings = demo_settings]
  by (simp add: reject_401_def Response_def)

text \<open>
  C5. Token refresh: when the wrapped view (called on the prepared request) returns the
  status 200, the view returns a response whose cookie "access" holds the body's field
  "access" with the access max-age and the shared attributes of the settings, and every
  other cookie of the response, "refresh" among them, is as the wrapped view left it; on
  any other status the view returns the wrapped view's response itself.
\<close>

theorem refresh_sets_access_cookie_only:
  "(CustomTokenRefreshView_request request = Inr request'
      \<and> super_post request' = Inr response \<and> status_code response = 200 \<longrightarrow>
      (\<exists>response'. CustomTokenRefreshView_post settings super_post request = Inr response'
         \<and> cookies response' ''access'' = Some (SetCookie
              \<lparr>value = py_str (dict_get (response.data response) ''access''),
               max_age = AUTH_COOKIE_ACCESS_MAX_AGE settings, path = AUTH_COOKIE_PATH settings,
               secure = AUTH_COOKIE_SECURE settings, httponly = AUTH_COOKIE_HTTP_ONLY settings,
               samesite = AUTH_COOKIE_SAMESITE settings\<rparr>)
         \<and> cookies response' ''refresh'' = cookies response ''refresh''
         \<and> (\<forall>name. name \<noteq> ''access'' \<longrightarrow> cookies response' name = cookies response name)))
   \<and> (CustomTokenRefreshView_request request = Inr request'
      \<and> super_post request' = Inr response \<and> status_code response \<noteq> 200 \<longrightarrow>
      CustomTokenRefreshView_post settings super_post request = Inr response)"
  by (simp add: CustomTokenRefreshView_post_success CustomTokenRefreshView_post_other
      set_cookie_cookies)

text \<open>
  The theorem on a wrapped view that answers 200 with a token pair, and on one that
  answers 401, for the request with the cookie refresh = "R".
\<close>

theorem refresh_sets_access_cookie_only_witness:
  "CustomTokenRefreshView_request refresh_cookie_request =
       Inr (refresh_cookie_request\<lparr>request.data := Dict [''refresh'' \<mapsto> PStr ''R'']\<rparr>)
   \<and> issue_200 (refresh_cookie_request\<lparr>request.data := Dict [''refresh'' \<mapsto> PStr ''R'']\<rparr>) =
       Inr (Response token_pair_body 200)
   \<and> status_code (Response token_pair_body 200) = 200
   \<and> (\<exists>response'. CustomTokenRefreshView_post demo_settings issue_200 refresh_cookie_request =
           Inr response'
         \<and> cookies response' ''access'' = Some (SetCookie
              \<lparr>value = ''A1'', max_age = 300, path = ''/'', secure = True, httponly = True,
               samesite = ''None''\<rparr>)
         \<and> cookies response' ''refresh'' = None
         \<and> (\<forall>name. name \<noteq> ''access'' \<longrightarrow>
               cookies response' name = cookies (Response token_pair_body 200) name))
   \<and> reject_401 (refresh_cookie_request\<lparr>request.data := Dict [''refresh'' \<mapsto> PStr ''R'']\<rparr>) =
       Inr (Response [''detail'' \<mapsto> PStr ''No active account''] 401)
   \<and> status_code (Response [''detail'' \<mapsto> PStr ''No active account''] 401) \<noteq> 200
   \<and> CustomTokenRefreshView_post demo_settings reject_401 refresh_cookie_request =
       Inr (Response [''detail'' \<mapsto> PStr ''No active account''] 401)"
  using refresh_sets_access_cookie_only
      [where super_post = issue_200 and request = refresh_cookie_request
         and request' = "refresh_cookie_request\<lparr>request.data := Dict [''refresh'' \<mapsto> PStr ''R'']\<rparr>"
         and response = "Response token_pair_body 200" and settings = demo_settings]
    refresh_sets_access_cookie_only
      [where super_post = reject_401 and request = refresh_cookie_request
         and request' = "refresh_cookie_request\<lparr>request.data := Dict [''refresh'' \<mapsto> PStr ''R'']\<rparr>"
         and response = "Response [''detail'' \<mapsto> PStr ''No active account''] 401"
         and settings = demo_settings]
    CustomTokenRefreshView_request_Dict
      [where request = refresh_cookie_request and s = "''R''" and m = Map.empty]
  by (simp add: issue_200_def reject_401_def Response_def token_pair_body_def demo_settings_def
      dict_get_def refresh_cookie_request_def)

text \<open>
  C6. For every request, whatever its cookies and body, \<^verbatim>\<open>LogoutView.post\<close> returns the
  status 204 with the body \<^verbatim>\<open>None\<close>, and the response instructs the deletion of the
  cookies "access" and "refresh" and of no other; two requests get the same response. The
  view has no outcome other than a response.
\<close>

theorem LogoutView_post_no_content:
  "status_code (LogoutView_post request) = 204
   \<and> response.data (LogoutView_post request) = None
   \<and> cookies (LogoutView_post request) ''access'' = Some DeleteCookie
   \<and> cookies (LogoutView_post request) ''refresh'' = Some DeleteCookie
   \<and> dom (cookies (LogoutView_post request)) = {''access'', ''refresh''}
   \<and> LogoutView_post request = LogoutView_post request'"
  by (auto simp add: LogoutView_post_def Response_def delete_cookie_def HTTP_204_NO_CONTENT_def)

text \<open>
  C7. For every request, each of the three policy views returns the status 200, a body
  with the one key "message" holding the view's literal text, and no cookie; each view
  declares \<^verbatim>\<open>AllowAny\<close> as its only permission class. The views return a response
  and change nothing.
\<close>

theorem policy_views_fixed_text:
  "PrivacyPolicyView_get request =
     \<lparr>status_code = 200,
      data = [''message'' \<mapsto> PStr ''This is the privacy policy of our application. We value your privacy and are committed to protecting your personal information.''],
      cookies = Map.empty\<rparr>
   \<and> TermsOfServiceView_get request =
     \<lparr>status_code = 200,
      data = [''message'' \<mapsto> PStr ''\<newline>        These are the terms of service of our application. By using our service, you agree to comply with these terms.\<newline>        ''],
      cookies = Map.empty\<rparr>
   \<and> DataDeletionPolicyView_get request =
     \<lparr>status_code = 200,
      data = [''message'' \<mapsto> PStr ''\<newline>        This is the data deletion policy of our application. You can request the deletion of your personal data at any time.\<newline>        ''],
      cookies = Map.empty\<rparr>
   \<and> PrivacyPolicyView_permission_classes = [AllowAny]
   \<and> TermsOfServiceView_permission_classes = [AllowAny]
   \<and> DataDeletionPolicyView_permission_classes = [AllowAny]"
  by (simp add: PrivacyPolicyView_get_def TermsOfServiceView_get_def DataDeletionPolicyView_get_def
      Response_def HTTP_200_OK_def PrivacyPolicyView_permission_classes_def
      TermsOfServiceView_permission_classes_def DataDeletionPolicyView_permission_classes_def)




text \<open>
  C9. When the wrapped view returns the success status and the body has no field
  "access" (or no field "refresh"), the view still returns a response: the lookup gives
  \<^verbatim>\<open>None\<close>, \<^verbatim>\<open>set_cookie\<close> is called for that name with the value \<^verbatim>\<open>None\<close> (the
  returned response is the result of that call), the cookie of that name is set and
  holds the text of \<^verbatim>\<open>None\<close>, and the status and the body are those of the wrapped
  view. This holds for social login, password login and, for "access", token refresh;
  no view has an error outcome for a missing field.
\<close>

theorem missing_token_field_sets_null_cookie:
  "(super_post request = Inr response \<and> status_code response = 201
      \<and> response.data response ''access'' = None \<longrightarrow>
      dict_get (response.data response) ''access'' = PNone
      \<and> (\<exists>response' m. CustomProviderAuthView_post settings super_post request = Inr response'
         \<and> response' =
            set_cookie ''refresh'' (dict_get (response.data response) ''refresh'')
              (AUTH_COOKIE_REFRESH_MAX_AGE settings) (AUTH_COOKIE_PATH settings)
              (AUTH_COOKIE_SECURE settings) (AUTH_COOKIE_HTTP_ONLY settings)
              (AUTH_COOKIE_SAMESITE settings)
              (set_cookie ''access'' PNone
                  (AUTH_COOKIE_ACCESS_MAX_AGE settings) (AUTH_COOKIE_PATH settings)
                  (AUTH_COOKIE_SECURE settings) (AUTH_COOKIE_HTTP_ONLY settings)
                  (AUTH_COOKIE_SAMESITE settings)
                  response)
         \<and> cookies response' ''access'' = Some (SetCookie m) \<and> value m = ''None''
         \<and> status_code response' = 201 \<and> response.data response' = response.data response))
   \<and> (super_post request = Inr response \<and> status_code response = 201
      \<and> response.data response ''refresh'' = None \<longrightarrow>
      dict_get (response.data response) ''refresh'' = PNone
      \<and> (\<exists>response' m. CustomProviderAuthView_post settings super_post request = Inr response'
         \<and> response' =
            set_cookie ''refresh'' PNone
              (AUTH_COOKIE_REFRESH_MAX_AGE settings) (AUTH_COOKIE_PATH settings)
              (AUTH_COOKIE_SECURE settings) (AUTH_COOKIE_HTTP_ONLY settings)
              (AUTH_COOKIE_SAMESITE settings)
              (set_cookie ''access'' (dict_get (response.data response) ''access'')
                  (AUTH_COOKIE_ACCESS_MAX_AGE settings) (AUTH_COOKIE_PATH settings)
                  (AUTH_COOKIE_SECURE settings) (AUTH_COOKIE_HTTP_ONLY settings)
                  (AUTH_COOKIE_SAMESITE settings)
                  response)
         \<and> cookies response' ''refresh'' = Some (SetCookie m) \<and> value m = ''None''
         \<and> status_code response' = 201 \<and> response.data response' = response.data response))
   \<and> (super_post request = Inr response \<and> status_code response = 200
      \<and> response.data response ''access'' = None \<longrightarrow>
      dict_get (response.data response) ''access'' = PNone
      \<and> (\<exists>response' m. CustomTokenObtainPairView_post settings super_post request = Inr response'
         \<and> response' =
            set_cookie ''refresh'' (dict_get (response.data response) ''refresh'')
              (AUTH_COOKIE_REFRESH_MAX_AGE settings) (AUTH_COOKIE_PATH settings)
              (AUTH_COOKIE_SECURE settings) (AUTH_COOKIE_HTTP_ONLY settings)
              (AUTH_COOKIE_SAMESITE settings)
              (set_cookie ''access'' PNone
                  (AUTH_COOKIE_ACCESS_MAX_AGE settings) (AUTH_COOKIE_PATH settings)
                  (AUTH_COOKIE_SECURE settings) (AUTH_COOKIE_HTTP_ONLY settings)
                  (AUTH_COOKIE_SAMESITE settings)
                  response)
         \<and> cookies response' ''access'' = Some (SetCookie m) \<and> value m = ''None''
         \<and> status_code response' = 200 \<and> response.data response' = response.data response))
   \<and> (super_post request = Inr response \<and> status_code response = 200
      \<and> response.data response ''refresh'' = None \<longrightarrow>
      dict_get (response.data response) ''refresh'' = PNone
      \<and> (\<exists>response' m. CustomTokenObtainPairView_post settings super_post request = Inr response'
         \<and> response' =
            set_cookie ''refresh'' PNone
              (AUTH_COOKIE_REFRESH_MAX_AGE settings) (AUTH_COOKIE_PATH settings)
              (AUTH_COOKIE_SECURE settings) (AUTH_COOKIE_HTTP_ONLY settings)
              (AUTH_COOKIE_SAMESITE settings)
              (set_cookie ''access'' (dict_get (response.data response) ''access'')
                  (AUTH_COOKIE_ACCESS_MAX_AGE settings) (AUTH_COOKIE_PATH settings)
                  (AUTH_COOKIE_SECURE settings) (AUTH_COOKIE_HTTP_ONLY settings)
                  (AUTH_COOKIE_SAMESITE settings)
                  response)
         \<and> cookies response' ''refresh'' = Some (SetCookie m) \<and> value m = ''None''
         \<and> status_code response' = 200 \<and> response.data response' = response.data response))
   \<and> (CustomTokenRefreshView_request request = Inr request'
      \<and> super_post' request' = Inr response \<and> status_code response = 200
      \<and> response.data response ''access'' = None \<longrightarrow>
      dict_get (response.data response) ''access'' = PNone
      \<and> (\<exists>response' m. CustomTokenRefreshView_post settings super_post' request = Inr response'
         \<and> response' =
            set_cookie ''access'' PNone
              (AUTH_COOKIE_ACCESS_MAX_AGE settings) (AUTH_COOKIE_PATH settings)
              (AUTH_COOKIE_SECURE settings) (AUTH_COOKIE_HTTP_ONLY settings)
              (AUTH_COOKIE_SAMESITE settings)
              response
         \<and> cookies response' ''access'' = Some (SetCookie m) \<and> value m = ''None''
         \<and> status_code response' = 200 \<and> response.data response' = response.data response))"
  by (simp add: CustomProviderAuthView_post_success CustomTokenObtainPairView_post_success
      CustomTokenRefreshView_post_success set_cookie_cookies set_cookie_status_code
      set_cookie_data dict_get_absent)

text \<open>
  The theorem on wrapped views that answer the success status with an empty body: both
  cookies of the login views, and the cookie "access" of the refresh view, hold the
  text "None".
\<close>

theorem missing_token_field_sets_null_cookie_witness:
  "empty_201 plain_request = Inr (Response Map.empty 201)
   \<and> empty_200 plain_request = Inr (Response Map.empty 200)
   \<and> CustomTokenRefreshView_request plain_request = Inr plain_request
   \<and> response.data (Response (Map.empty :: pydict) 200) ''access'' = None
   \<and> response.data (Response (Map.empty :: pydict) 201) ''refresh'' = None
   \<and> (\<exists>response' m. CustomProviderAuthView_post demo_settings empty_201 plain_request = Inr response'
         \<and> cookies response' ''access'' = Some (SetCookie m) \<and> value m = ''None''
         \<and> status_code response' = 201 \<and> response.data response' = Map.empty)
   \<and> (\<exists>response' m. CustomProviderAuthView_post demo_settings empty_201 plain_request = Inr response'
         \<and> cookies response' ''refresh'' = Some (SetCookie m) \<and> value m = ''None''
         \<and> status_code response' = 201 \<and> response.data response' = Map.empty)
   \<and> (\<exists>response' m. CustomTokenObtainPairView_post demo_settings empty_200 plain_request = Inr response'
         \<and> cookies response' ''access'' = Some (SetCookie m) \<and> value m = ''None''
         \<and> status_code response' = 200 \<and> response.data response' = Map.empty)
   \<and> (\<exists>response' m. CustomTokenObtainPairView_post demo_settings empty_200 plain_request = Inr response'
         \<and> cookies response' ''refresh'' = Some (SetCookie m) \<and> value m = ''None''
         \<and> status_code response' = 200 \<and> response.data response' = Map.empty)
   \<and> (\<exists>response' m. CustomTokenRefreshView_post demo_settings empty_200 plain_request = Inr response'
         \<and> cookies response' ''access'' = Some (SetCookie m) \<and> value m = ''None''
         \<and> status_code response' = 200 \<and> response.data response' = Map.empty)"
  using missing_token_field_sets_null_cookie
      [where super_post = empty_201 and request = plain_request
         and response = "Response Map.empty 201" and settings = demo_settings]
    missing_token_field_sets_null_cookie
      [where super_post = empty_200 and super_post' = empty_200 and request = plain_request
         and request' = plain_request
         and response = "Response Map.empty 200" and settings = demo_settings]
    CustomTokenRefreshView_request_absent [where request = plain_request]
  by (simp add: empty_200_def empty_201_def Response_def plain_request_def set_cookie_def)

text \<open>
  C10. The four views built on a wrapped view: an exception of the wrapped view leaves
  the view as it is; a response of the wrapped view is returned with every field but
  the cookies unchanged (status code and body among them), and each cookie of the
  returned response is either the wrapped view's or a cookie set under the name
  "access" or "refresh" ("access" only for token refresh); token verify returns the
  wrapped view's outcome itself. For token refresh and token verify, whose preparation
  of the request can raise before the wrapped view is called, every response the view
  returns is still a response of the wrapped view, changed in its cookies at most.
\<close>

theorem views_only_add_cookies:
  "(super_post request = Inl e \<longrightarrow>
      CustomProviderAuthView_post settings super_post request = Inl e
      \<and> CustomTokenObtainPairView_post settings super_post request = Inl e)
   \<and> (CustomTokenRefreshView_request request = Inr request' \<and> super_post' request' = Inl e' \<longrightarrow>
      CustomTokenRefreshView_post settings super_post' request = Inl e')
   \<and> (super_post request = Inr response \<longrightarrow>
      (\<exists>response'. CustomProviderAuthView_post settings super_post request = Inr response'
         \<and> response' = response\<lparr>cookies := cookies response'\<rparr>
         \<and> (\<forall>name. cookies response' name = cookies response name
               \<or> (name = ''access'' \<or> name = ''refresh'')
                  \<and> (\<exists>m. cookies response' name = Some (SetCookie m)))))
   \<and> (super_post request = Inr response \<longrightarrow>
      (\<exists>response'. CustomTokenObtainPairView_post settings super_post request = Inr response'
         \<and> response' = response\<lparr>cookies := cookies response'\<rparr>
         \<and> (\<forall>name. cookies response' name = cookies response name
               \<or> (name = ''access'' \<or> name = ''refresh'')
                  \<and> (\<exists>m. cookies response' name = Some (SetCookie m)))))
   \<and> (CustomTokenRefreshView_request request = Inr request' \<and> super_post' request' = Inr response \<longrightarrow>
      (\<exists>response'. CustomTokenRefreshView_post settings super_post' request = Inr response'
         \<and> response' = response\<lparr>cookies := cookies response'\<rparr>
         \<and> (\<forall>name. cookies response' name = cookies response name
               \<or> name = ''access'' \<and> (\<exists>m. cookies response' name = Some (SetCookie m)))))
   \<and> (CustomTokenVerifyView_request request = Inr request' \<longrightarrow>
      CustomTokenVerifyView_post super_post' request = super_post' request')
   \<and> (CustomTokenRefreshView_post settings super_post' request = Inr response' \<longrightarrow>
      (\<exists>request' response. CustomTokenRefreshView_request request = Inr request'
         \<and> super_post' request' = Inr response
         \<and> response' = response\<lparr>cookies := cookies response'\<rparr>
         \<and> (\<forall>name. cookies response' name = cookies response name
               \<or> name = ''access'' \<and> (\<exists>m. cookies response' name = Some (SetCookie m)))))
   \<and> (CustomTokenVerifyView_post super_post' request = Inr response' \<longrightarrow>
      (\<exists>request'. CustomTokenVerifyView_request request = Inr request'
         \<and> super_post' request' = Inr response'))"
proof -
  have raised: "super_post request = Inl e \<longrightarrow>
      CustomProviderAuthView_post settings super_post request = Inl e
      \<and> CustomTokenObtainPairView_post settings super_post request = Inl e"
    by (simp add: CustomProviderAuthView_post_raise CustomTokenObtainPairView_post_raise)
  have raised_refresh:
    "CustomTokenRefreshView_request request = Inr request' \<and> super_post' request' = Inl e' \<longrightarrow>
      CustomTokenRefreshView_post settings super_post' request = Inl e'"
    by (simp add: CustomTokenRefreshView_post_raise)
  have provider: "super_post request = Inr response \<longrightarrow>
      (\<exists>response'. CustomProviderAuthView_post settings super_post request = Inr response'
         \<and> response' = response\<lparr>cookies := cookies response'\<rparr>
         \<and> (\<forall>name. cookies response' name = cookies response name
               \<or> (name = ''access'' \<or> name = ''refresh'')
                  \<and> (\<exists>m. cookies response' name = Some (SetCookie m))))"
  proof (cases "status_code response = 201")
    case True
    then show ?thesis
      by (simp add: CustomProviderAuthView_post_success set_cookie_def)
  next
    case False
    then show ?thesis
      by (simp add: CustomProviderAuthView_post_other)
  qed
  have obtain_pair: "super_post request = Inr response \<longrightarrow>
      (\<exists>response'. CustomTokenObtainPairView_post settings super_post request = Inr response'
         \<and> response' = response\<lparr>cookies := cookies response'\<rparr>
         \<and> (\<forall>name. cookies response' name = cookies response name
               \<or> (name = ''access'' \<or> name = ''refresh'')
                  \<and> (\<exists>m. cookies response' name = Some (SetCookie m))))"
  proof (cases "status_code response = 200")
    case True
    then show ?thesis
      by (simp add: CustomTokenObtainPairView_post_success set_cookie_def)
  next
    case False
    then show ?thesis
      by (simp add: CustomTokenObtainPairView_post_other)
  qed
  have refresh: "\<And>request' response.
      CustomTokenRefreshView_request request = Inr request' \<and> super_post' request' = Inr response \<longrightarrow>
      (\<exists>response'. CustomTokenRefreshView_post settings super_post' request = Inr response'
         \<and> response' = response\<lparr>cookies := cookies response'\<rparr>
         \<and> (\<forall>name. cookies response' name = cookies response name
               \<or> name = ''access'' \<and> (\<exists>m. cookies response' name = Some (SetCookie m))))"
  proof -
    fix request' response
    show "CustomTokenRefreshView_request request = Inr request' \<and> super_post' request' = Inr response \<longrightarrow>
      (\<exists>response'. CustomTokenRefreshView_post settings super_post' request = Inr response'
         \<and> response' = response\<lparr>cookies := cookies response'\<rparr>
         \<and> (\<forall>name. cookies response' name = cookies response name
               \<or> name = ''access'' \<and> (\<exists>m. cookies response' name = Some (SetCookie m))))"
    proof (cases "status_code response = 200")
      case True
      then show ?thesis
        by (simp add: CustomTokenRefreshView_post_success set_cookie_def)
    next
      case False
      then show ?thesis
        by (simp add: CustomTokenRefreshView_post_other)
    qed
  qed
  have verify: "CustomTokenVerifyView_request request = Inr request' \<longrightarrow>
      CustomTokenVerifyView_post super_post' request = super_post' request'"
    by (simp add: CustomTokenVerifyView_post_called)
  have refresh_only: "CustomTokenRefreshView_post settings super_post' request = Inr response' \<longrightarrow>
      (\<exists>request' response. CustomTokenRefreshView_request request = Inr request'
         \<and> super_post' request' = Inr response
         \<and> response' = response\<lparr>cookies := cookies response'\<rparr>
         \<and> (\<forall>name. cookies response' name = cookies response name
               \<or> name = ''access'' \<and> (\<exists>m. cookies response' name = Some (SetCookie m))))"
  proof
    assume returned: "CustomTokenRefreshView_post settings super_post' request = Inr response'"
    then obtain rq where prepared: "CustomTokenRefreshView_request request = Inr rq"
      by (cases "CustomTokenRefreshView_request request")
        (simp_all add: CustomTokenRefreshView_post_not_called)
    from returned prepared obtain r where answered: "super_post' rq = Inr r"
      by (cases "super_post' rq") (simp_all add: CustomTokenRefreshView_post_raise)
    from refresh [of rq r] prepared answered returned
    have "response' = r\<lparr>cookies := cookies response'\<rparr>
         \<and> (\<forall>name. cookies response' name = cookies r name
               \<or> name = ''access'' \<and> (\<exists>m. cookies response' name = Some (SetCookie m)))"
      by simp
    with prepared answered
    show "\<exists>request' response. CustomTokenRefreshView_request request = Inr request'
         \<and> super_post' request' = Inr response
         \<and> response' = response\<lparr>cookies := cookies response'\<rparr>
         \<and> (\<forall>name. cookies response' name = cookies response name
               \<or> name = ''access'' \<and> (\<exists>m. cookies response' name = Some (SetCookie m)))"
      by blast
  qed
  have verify_only: "CustomTokenVerifyView_post super_post' request = Inr response' \<longrightarrow>
      (\<exists>request'. CustomTokenVerifyView_request request = Inr request'
         \<and> super_post' request' = Inr response')"
    by (cases "CustomTokenVerifyView_request request")
      (simp_all add: CustomTokenVerifyView_post_not_called CustomTokenVerifyView_post_called)
  from raised raised_refresh provider obtain_pair refresh [of request' response] verify
    refresh_only verify_only
  show ?thesis
    by (intro conjI)
qed

text \<open>
  The theorem on a wrapped view that raises and on one that answers 200, and on the
  responses the refresh and verify views return.
\<close>

theorem views_only_add_cookies_witness:
  "raise_invalid plain_request = Inl (Raised ''InvalidToken'')
   \<and> CustomTokenRefreshView_request plain_request = Inr plain_request
   \<and> CustomTokenVerifyView_request plain_request = Inr plain_request
   \<and> CustomProviderAuthView_post demo_settings raise_invalid plain_request =
       Inl (Raised ''InvalidToken'')
   \<and> CustomTokenObtainPairView_post demo_settings raise_invalid plain_request =
       Inl (Raised ''InvalidToken'')
   \<and> CustomTokenRefreshView_post demo_settings raise_invalid plain_request =
       Inl (Raised ''InvalidToken'')
   \<and> issue_200 plain_request = Inr (Response token_pair_body 200)
   \<and> (\<exists>response'. CustomProviderAuthView_post demo_settings issue_200 plain_request = Inr response'
         \<and> status_code response' = 200 \<and> response.data response' = token_pair_body
         \<and> cookies response' = Map.empty)
   \<and> (\<exists>response'. CustomTokenObtainPairView_post demo_settings issue_200 plain_request = Inr response'
         \<and> status_code response' = 200 \<and> response.data response' = token_pair_body
         \<and> (\<forall>name. name \<noteq> ''access'' \<and> name \<noteq> ''refresh'' \<longrightarrow> cookies response' name = None))
   \<and> (\<exists>response'. CustomTokenRefreshView_post demo_settings issue_200 plain_request = Inr response'
         \<and> status_code response' = 200 \<and> response.data response' = token_pair_body
         \<and> (\<forall>name. name \<noteq> ''access'' \<longrightarrow> cookies response' name = None))
   \<and> CustomTokenVerifyView_post issue_200 plain_request = Inr (Response token_pair_body 200)
   \<and> CustomTokenRefreshView_post demo_settings reject_401 plain_request =
       Inr (Response [''detail'' \<mapsto> PStr ''No active account''] 401)
   \<and> (\<exists>request' response. CustomTokenRefreshView_request plain_request = Inr request'
         \<and> reject_401 request' = Inr response
         \<and> Response [''detail'' \<mapsto> PStr ''No active account''] 401 = response)
   \<and> (\<exists>request'. CustomTokenVerifyView_request plain_request = Inr request'
         \<and> issue_200 request' = Inr (Response token_pair_body 200))"
  using views_only_add_cookies
      [where super_post = raise_invalid and super_post' = raise_invalid
         and request = plain_request and request' = plain_request
         and e = "Raised ''InvalidToken''" and e' = "Raised ''InvalidToken''"
         and settings = demo_settings]
    views_only_add_cookies
      [where super_post = issue_200 and super_post' = issue_200
         and request = plain_request and request' = plain_request
         and response = "Response token_pair_body 200"
         and response' = "Response token_pair_body 200" and settings = demo_settings]
    views_only_add_cookies
      [where super_post' = reject_401 and request = plain_request
         and response' = "Response [''detail'' \<mapsto> PStr ''No active account''] 401"
         and settings = demo_settings]
  by (simp add: raise_invalid_def issue_200_def reject_401_def Response_def plain_request_def
      CustomProviderAuthView_post_def CustomTokenObtainPairView_post_def
      CustomTokenRefreshView_post_def CustomTokenRefreshView_request_def
      CustomTokenVerifyView_post_def CustomTokenVerifyView_request_def set_cookie_def)

end
